theory Spec2Isabelle
  imports Main
begin

section \<open>Python strings and lists\<close>

text \<open>
  Texts are \<open>string\<close>s whose characters stand for code points below 256, so that
  \<open>length\<close>, slicing and \<open>strip\<close> count what Python's \<open>str\<close> counts on such texts.
  The glyphs of the console report that lie outside this range are spelled by their UTF-8
  bytes; no operation inspects them.
\<close>

definition is_space :: "char \<Rightarrow> bool" where
  \<comment> \<open>\<open>str.isspace\<close> on the code points below 256\<close>
  "is_space c = ((of_char c :: nat) \<in> {9, 10, 11, 12, 13, 28, 29, 30, 31, 32, 133, 160})"

definition lstrip :: "string \<Rightarrow> string" where
  "lstrip s = dropWhile is_space s"

definition rstrip :: "string \<Rightarrow> string" where
  "rstrip s = rev (dropWhile is_space (rev s))"

definition strip :: "string \<Rightarrow> string" where
  "strip s = rstrip (lstrip s)"

definition startswith :: "string \<Rightarrow> string \<Rightarrow> bool" where
  "startswith s p = (take (length p) s = p)"

text \<open>
  \<open>sep.join(xs)\<close>.
\<close>

fun join :: "string \<Rightarrow> string list \<Rightarrow> string" where
  "join sep [] = []"
| "join sep [x] = x"
| "join sep (x # y # ys) = x @ sep @ join sep (y # ys)"

text \<open>
  \<open>s.split(sep)\<close> for a non-empty separator: the text is scanned from the left, every
  occurrence found closes the current segment and the scan resumes after it.
  \<open>s.replace(old, new)\<close> scans the same way. Neither is called with an empty separator.
\<close>

function split_scan :: "string \<Rightarrow> string \<Rightarrow> string \<Rightarrow> string list" where
  "split_scan sep cur [] = [cur]"
| "split_scan sep cur (c # cs) =
     (if sep \<noteq> [] \<and> startswith (c # cs) sep
      then cur # split_scan sep [] (drop (length sep) (c # cs))
      else split_scan sep (cur @ [c]) cs)"
  by pat_completeness auto
termination
  by (relation "measure (\<lambda>(sep, cur, s). length s)") auto

definition split :: "string \<Rightarrow> string \<Rightarrow> string list" where
  "split s sep = split_scan sep [] s"

function replace :: "string \<Rightarrow> string \<Rightarrow> string \<Rightarrow> string" where
  "replace [] old new = []"
| "replace (c # cs) old new =
     (if old \<noteq> [] \<and> startswith (c # cs) old
      then new @ replace (drop (length old) (c # cs)) old new
      else c # replace cs old new)"
  by pat_completeness auto
termination
  by (relation "measure (\<lambda>(s, old, new). length s)") auto

text \<open>
  \<open>xs[:n]\<close>: a negative bound counts from the end of the list.
\<close>

definition slice_to :: "int \<Rightarrow> 'a list \<Rightarrow> 'a list" where
  "slice_to n xs =
     (if 0 \<le> n then take (nat n) xs else take (length xs - nat (- n)) xs)"

definition enumerate_from :: "nat \<Rightarrow> 'a list \<Rightarrow> (nat \<times> 'a) list" where
  "enumerate_from k xs = zip [k ..< k + length xs] xs"

text \<open>
  \<open>str(n)\<close> of a natural number, in decimal.
\<close>

definition digit :: "nat \<Rightarrow> char" where
  "digit d = char_of (48 + d)"

function str_nat :: "nat \<Rightarrow> string" where
  "str_nat n = (if n < 10 then [digit n] else str_nat (n div 10) @ [digit (n mod 10)])"
  by pat_completeness auto
termination
  by (relation "measure id") auto

declare str_nat.simps [simp del]

section \<open>Errors\<close>

text \<open>
  The exceptions the program raises or lets through, each with its message. \<open>ApiError\<close>
  is what the generation client raises of its own (unavailable model, quota, network, a
  reply without text); \<open>JSONDecodeError\<close> is the decode error of the \<open>json\<close> module,
  which the client raises too when the body it received does not parse; \<open>OSError\<close> is
  what opening or writing a file raises. Only subclasses of \<open>Exception\<close> are modelled.
\<close>

datatype error =
    FileNotFoundError string
  | ValueError string
  | EmptyDataError string
  | KeyError string
  | IndexError string
  | TypeError string
  | AttributeError string
  | ApiError string
  | JSONDecodeError string
  | UnboundLocalError string
  | OSError string
  | Exception string

section \<open>The data loader (first half of \<open>analizza_dati\<close>)\<close>

text \<open>
  A cell of the parsed table is missing (\<open>NaN\<close>) or holds a value, kept by the text that
  \<open>astype(str)\<close> gives for it. A data frame is the list of its columns in header order.
\<close>

datatype cell = NaN | Val string

type_synonym dataframe = "(string \<times> cell list) list"

definition columns :: "dataframe \<Rightarrow> string list" where
  "columns df = map fst df"

definition getitem :: "dataframe \<Rightarrow> string \<Rightarrow> error + cell list" where
  "getitem df name = (case map_of df name of None \<Rightarrow> Inl (KeyError name) | Some c \<Rightarrow> Inr c)"

fun setitem :: "dataframe \<Rightarrow> string \<Rightarrow> cell list \<Rightarrow> dataframe" where
  "setitem [] name c = [(name, c)]"
| "setitem ((k, v) # df) name c = (if k = name then (k, c) # df else (k, v) # setitem df name c)"

definition fillna :: "string \<Rightarrow> cell list \<Rightarrow> cell list" where
  "fillna v c = map (\<lambda>x. case x of NaN \<Rightarrow> Val v | Val s \<Rightarrow> Val s) c"

definition astype_str :: "cell list \<Rightarrow> string list" where
  "astype_str c = map (\<lambda>x. case x of NaN \<Rightarrow> ''nan'' | Val s \<Rightarrow> s) c"

definition override_column :: string where
  "override_column = ''a-size-base 3''"

definition quote :: string where
  "quote = [CHR 0x27]"

definition newline :: string where
  "newline = [CHR 0x0A]"

text \<open>
  Lines 62 to 71: the column check, \<open>fillna\<close> on the requested column, and the choice of
  the column the reviews are read from.
\<close>

definition reviews_list_of :: "dataframe \<Rightarrow> int \<Rightarrow> string \<Rightarrow> error + string list" where
  "reviews_list_of df max_reviews column_name =
     (if column_name \<notin> set (columns df)
      then Inl (ValueError (''Colonna '' @ quote @ column_name @ quote
                  @ '' non trovata. Colonne disponibili: '' @ join '', '' (columns df)))
      else case getitem df column_name of
             Inl e \<Rightarrow> Inl e
           | Inr c \<Rightarrow>
               let df' = setitem df column_name (fillna '''' c) in
               if override_column \<in> set (columns df')
               then (case getitem df' override_column of
                       Inl e \<Rightarrow> Inl e
                     | Inr c' \<Rightarrow> Inr (slice_to max_reviews (astype_str c')))
               else (case getitem df' column_name of
                       Inl e \<Rightarrow> Inl e
                     | Inr c' \<Rightarrow> Inr (slice_to max_reviews (astype_str c'))))"

text \<open>
  Line 72: the filter of the list comprehension, the block of one review, the rows the
  comprehension keeps with their positions, and the blocks joined by a blank line.
\<close>

definition kept :: "string \<Rightarrow> bool" where
  "kept rv = (strip rv \<noteq> [] \<and> rv \<noteq> ''nan'')"

definition block :: "nat \<Rightarrow> string \<Rightarrow> string" where
  "block i rv = ''Recensione '' @ str_nat (i + 1) @ '': '' @ rv"

definition kept_rows :: "string list \<Rightarrow> (nat \<times> string) list" where
  "kept_rows reviews_list = filter (\<lambda>(i, rv). kept rv) (enumerate_from 0 reviews_list)"

definition review_blocks :: "string list \<Rightarrow> string list" where
  "review_blocks reviews_list = map (\<lambda>(i, rv). block i rv) (kept_rows reviews_list)"

definition render_reviews :: "string list \<Rightarrow> string" where
  "render_reviews reviews_list = join (newline @ newline) (review_blocks reviews_list)"

section \<open>The prompt (lines 99 to 126)\<close>

text \<open>
  The template is one formatted text with two holes: \<open>len(reviews_list)\<close> after the
  name of the field \<open>numero_recensioni_analizzate\<close>, and the rendered reviews.
\<close>

definition count_field :: string where
  \<open>count_field = ''      "numero_recensioni_analizzate": ''\<close>

definition prompt_head :: string where
  \<open>prompt_head =
       newline
     @ ''    Agisci come un esperto analista di dati, consulente strategico e specialista di sentiment analysis.'' @ newline
     @ ''    Analizza attentamente i seguenti feedback dei clienti e restituisci un output ESCLUSIVAMENTE in formato JSON valido.'' @ newline
     @ ''    '' @ newline
     @ ''    Struttura JSON richiesta (rispetta esattamente questa struttura):'' @ newline
     @ ''    {'' @ newline
     @ ''      "sentiment_score": 75,'' @ newline
     @ ''      "sentiment_label": "Positivo/Neutrale/Negativo",'' @ newline
     @ count_field\<close>

definition prompt_mid :: string where
  \<open>prompt_mid =
       '','' @ newline
     @ ''      "punti_critici": ['' @ newline
     @ ''        {"problema": "descrizione problema", "frequenza": "alta/media/bassa", "impatto": "alto/medio/basso"},'' @ newline
     @ ''        {"problema": "descrizione problema", "frequenza": "alta/media/bassa", "impatto": "alto/medio/basso"}'' @ newline
     @ ''      ],'' @ newline
     @ ''      "vantaggi_competitivi": ['' @ newline
     @ ''        {"vantaggio": "descrizione pregio", "menzioni": "numero stimato di menzioni"},'' @ newline
     @ ''        {"vantaggio": "descrizione pregio", "menzioni": "numero stimato di menzioni"}'' @ newline
     @ ''      ],'' @ newline
     @ ''      "temi_ricorrenti": ["tema 1", "tema 2", "tema 3"],'' @ newline
     @ ''      "consiglio_ingegneristico": "descrizione tecnica dettagliata per migliorare il prodotto",'' @ newline
     @ ''      "strategia_marketing": "strategia comunicativa basata sui dati per migliorare la percezione del cliente",'' @ newline
     @ ''      "priorita_intervento": ["azione prioritaria 1", "azione prioritaria 2", "azione prioritaria 3"]'' @ newline
     @ ''    }'' @ newline
     @ newline
     @ ''    FEEDBACK DA ANALIZZARE:'' @ newline
     @ ''    ''\<close>

definition prompt_tail :: string where
  \<open>prompt_tail =
       newline
     @ ''    '' @ newline
     @ ''    Rispondi SOLO con il JSON, senza testo aggiuntivo prima o dopo.'' @ newline
     @ ''    ''\<close>

definition build_prompt :: "string \<Rightarrow> nat \<Rightarrow> string" where
  "build_prompt reviews n = prompt_head @ str_nat n @ prompt_mid @ reviews @ prompt_tail"

section \<open>The model invoker (second half of \<open>analizza_dati\<close>)\<close>

text \<open>
  A parsed reply is a JSON value. Floating-point numbers are kept by their text; nothing
  computes with them. A JSON object is the list of its members in order, with distinct
  keys, as \<open>json.loads\<close> builds a \<open>dict\<close>.
\<close>

datatype json =
    JNull
  | JBool bool
  | JInt int
  | JFloat string
  | JStr string
  | JArr "json list"
  | JObj "(string \<times> json) list"

text \<open>
  What the function does not define itself is a parameter: whether a path exists, the
  table \<open>pd.read_csv\<close> parses (or the exception it raises), the text of the reply the
  generation client gives for a model identifier and a prompt (or the exception raised
  anywhere from the call to \<open>response.text.strip()\<close>), and \<open>json.loads\<close>, which gives the
  parsed value or the message of its \<open>JSONDecodeError\<close>.
  The last two fields belong to the entry point: \<open>json.dumps\<close> and the effect of
  \<open>open\<close> followed by \<open>json.dump\<close> on the file system, with the exception it raised, if
  any.
\<close>

record 'fs world =
  path_exists :: "string \<Rightarrow> bool"
  read_csv :: "string \<Rightarrow> error + dataframe"
  generate_content :: "string \<Rightarrow> string \<Rightarrow> error + string"
  loads :: "string \<Rightarrow> string + json"
  dumps :: "json \<Rightarrow> string"
  dump_to_file :: "string \<Rightarrow> json \<Rightarrow> 'fs \<Rightarrow> 'fs \<times> error option"

definition model_names :: "string list" where
  "model_names =
     [''models/gemini-2.5-flash'',
      ''models/gemini-2.0-flash'',
      ''models/gemini-flash-latest'',
      ''models/gemini-2.5-pro'',
      ''models/gemini-pro-latest'']"

definition fence :: string where
  "fence = [CHR 0x60, CHR 0x60, CHR 0x60]"

text \<open>
  Lines 160 to 164, applied to the reply already stripped once. The index \<open>[1]\<close> is
  written with its \<open>IndexError\<close>.
\<close>

definition clean_response :: "string \<Rightarrow> error + string" where
  "clean_response text_response =
     (if startswith text_response fence
      then (case split text_response fence of
              _ # seg # _ \<Rightarrow>
                Inr (strip (replace (if startswith seg ''json'' then drop 4 seg else seg) fence []))
            | _ \<Rightarrow> Inl (IndexError ''list index out of range''))
      else Inr (strip (replace text_response fence [])))"

text \<open>
  One pass of the loop body ends in one of three ways: the parsed value is returned, an
  error is recorded in \<open>last_error\<close> and the loop goes on, or an exception leaves the
  function.
\<close>

datatype outcome = Returned json | Recorded error | Raised error

text \<open>
  Lines 132 to 180. The local variable \<open>text_response\<close> is passed in and out, \<open>None\<close>
  as long as no pass has assigned it. The handler of \<open>json.JSONDecodeError\<close> guards the
  whole \<open>try\<close> body, the call of the client included, and reads \<open>text_response\<close> for its
  log line: a decode error raised by the client while the variable is unassigned ends in
  \<open>UnboundLocalError\<close>, which no handler catches. Every other exception goes to the
  second handler.
\<close>

definition attempt ::
  "'fs world \<Rightarrow> string \<Rightarrow> string \<Rightarrow> string option \<Rightarrow> outcome \<times> string option" where
  "attempt w prompt model_name text_response =
     (case generate_content w model_name prompt of
        Inl (JSONDecodeError msg) \<Rightarrow>
          (case text_response of
             None \<Rightarrow>
               (Raised (UnboundLocalError
                  (''cannot access local variable '' @ quote @ ''text_response'' @ quote
                     @ '' where it is not associated with a value'')),
                None)
           | Some t \<Rightarrow>
               (Recorded (ValueError (''Risposta API non valida. Errore JSON: '' @ msg)), Some t))
      | Inl e \<Rightarrow> (Recorded e, text_response)
      | Inr reply \<Rightarrow>
          (case clean_response (strip reply) of
             Inl e \<Rightarrow> (Recorded e, Some (strip reply))
           | Inr cleaned \<Rightarrow>
               (case loads w cleaned of
                  Inl msg \<Rightarrow>
                    (Recorded (ValueError (''Risposta API non valida. Errore JSON: '' @ msg)),
                     Some cleaned)
                | Inr result \<Rightarrow> (Returned result, Some cleaned))))"

text \<open>
  The loop over the model identifiers, with \<open>last_error\<close>, \<open>text_response\<close> and the list
  of the identifiers attempted so far; after the loop, line 184.
\<close>

fun try_models ::
  "'fs world \<Rightarrow> string \<Rightarrow> string list \<Rightarrow> error option \<Rightarrow> string option \<Rightarrow> string list
   \<Rightarrow> (error + json) \<times> string list" where
  "try_models w prompt [] last_error text_response tried =
     (Inl (case last_error of
             Some e \<Rightarrow> e
           | None \<Rightarrow> Exception ''Impossibile generare contenuto con nessun modello disponibile''),
      tried)"
| "try_models w prompt (model_name # rest) last_error text_response tried =
     (case attempt w prompt model_name text_response of
        (Returned result, _) \<Rightarrow> (Inr result, tried @ [model_name])
      | (Recorded e, text_response') \<Rightarrow>
          try_models w prompt rest (Some e) text_response' (tried @ [model_name])
      | (Raised e, _) \<Rightarrow> (Inl e, tried @ [model_name]))"

text \<open>
  Lines 53 to 80: the loader, giving the rendered reviews and \<open>len(reviews_list)\<close>.
\<close>

definition load_reviews ::
  "'fs world \<Rightarrow> string \<Rightarrow> int \<Rightarrow> string \<Rightarrow> error + string \<times> nat" where
  "load_reviews w file_csv max_reviews column_name =
     (if \<not> path_exists w file_csv
      then Inl (FileNotFoundError (''File non trovato: '' @ file_csv))
      else case read_csv w file_csv of
             Inl (EmptyDataError _) \<Rightarrow> Inl (ValueError (''Il file CSV '' @ [CHR 0xE8] @ '' vuoto''))
           | Inl e \<Rightarrow> Inl e
           | Inr df \<Rightarrow>
               (case reviews_list_of df max_reviews column_name of
                  Inl e \<Rightarrow> Inl e
                | Inr reviews_list \<Rightarrow> Inr (render_reviews reviews_list, length reviews_list)))"

text \<open>
  The whole function: the result or the exception raised, and the identifiers attempted.
\<close>

definition analizza_dati ::
  "'fs world \<Rightarrow> string \<Rightarrow> int \<Rightarrow> string \<Rightarrow> (error + json) \<times> string list" where
  "analizza_dati w file_csv max_reviews column_name =
     (case load_reviews w file_csv max_reviews column_name of
        Inl e \<Rightarrow> (Inl e, [])
      | Inr (reviews, n) \<Rightarrow> try_models w (build_prompt reviews n) model_names None None [])"

section \<open>Saving the result (\<open>salva_risultati\<close>)\<close>

text \<open>
  The logger's lines are kept where a function's outcome shows only there: each entry is a
  level and a message. \<open>str_exc\<close> is \<open>str(e)\<close>, the message of the exception.
\<close>

datatype level = INFO | WARNING | ERROR

fun str_exc :: "error \<Rightarrow> string" where
  "str_exc (FileNotFoundError m) = m"
| "str_exc (ValueError m) = m"
| "str_exc (EmptyDataError m) = m"
| "str_exc (KeyError m) = m"
| "str_exc (IndexError m) = m"
| "str_exc (TypeError m) = m"
| "str_exc (AttributeError m) = m"
| "str_exc (ApiError m) = m"
| "str_exc (JSONDecodeError m) = m"
| "str_exc (UnboundLocalError m) = m"
| "str_exc (OSError m) = m"
| "str_exc (Exception m) = m"

text \<open>
  The \<open>try\<close> block opens the file and dumps the result; whatever it raises is caught by
  \<open>except Exception\<close>, logged, and the function returns.
\<close>

definition salva_risultati ::
  "'fs world \<Rightarrow> json \<Rightarrow> string \<Rightarrow> 'fs \<times> (level \<times> string) list
   \<Rightarrow> (error + unit) \<times> 'fs \<times> (level \<times> string) list" where
  "salva_risultati w risultato output_file st =
     (case st of (fs, log) \<Rightarrow>
        (case dump_to_file w output_file risultato fs of
           (fs', None) \<Rightarrow> (Inr (), fs', log @ [(INFO, ''Risultati salvati in: '' @ output_file)])
         | (fs', Some e) \<Rightarrow>
             (Inr (), fs', log @ [(ERROR, ''Errore nel salvataggio dei risultati: '' @ str_exc e)])))"

section \<open>The console report (\<open>stampa_report\<close>)\<close>

text \<open>
  \<open>dict.get\<close> with a default and the \<open>in\<close> test on a \<open>dict\<close>.
\<close>

definition dict_get :: "(string \<times> json) list \<Rightarrow> string \<Rightarrow> json \<Rightarrow> json" where
  "dict_get d k dflt = (case map_of d k of None \<Rightarrow> dflt | Some v \<Rightarrow> v)"

definition has_key :: "(string \<times> json) list \<Rightarrow> string \<Rightarrow> bool" where
  "has_key d k = (map_of d k \<noteq> None)"

fun type_name :: "json \<Rightarrow> string" where
  "type_name JNull = ''NoneType''"
| "type_name (JBool _) = ''bool''"
| "type_name (JInt _) = ''int''"
| "type_name (JFloat _) = ''float''"
| "type_name (JStr _) = ''str''"
| "type_name (JArr _) = ''list''"
| "type_name (JObj _) = ''dict''"

text \<open>
  What a \<open>for\<close> loop iterates over: the items of a list, the characters of a text, the
  keys of a \<open>dict\<close>; anything else raises \<open>TypeError\<close>.
\<close>

fun py_iter :: "json \<Rightarrow> error + json list" where
  "py_iter (JArr xs) = Inr xs"
| "py_iter (JStr s) = Inr (map (\<lambda>c. JStr [c]) s)"
| "py_iter (JObj d) = Inr (map (\<lambda>(k, v). JStr k) d)"
| "py_iter v = Inl (TypeError (quote @ type_name v @ quote @ '' object is not iterable''))"

text \<open>
  A value inside a formatted text: a text is itself; for every other value the built-in
  conversion \<open>repr\<close> is a parameter.
\<close>

definition py_str :: "(json \<Rightarrow> string) \<Rightarrow> json \<Rightarrow> string" where
  "py_str repr v = (case v of JStr s \<Rightarrow> s | _ \<Rightarrow> repr v)"

definition na :: json where
  "na = JStr ''N/A''"

definition rule80 :: string where
  "rule80 = replicate 80 (CHR ''='')"

text \<open>
  Each section of the report gives the texts it prints, one per call of \<open>print\<close>, and the
  exception that stopped it, if any. The sections run in order until one raises.
\<close>

type_synonym section_out = "string list \<times> error option"

definition banner :: section_out where
  "banner =
     ([newline @ rule80,
       [CHR 0xF0, CHR 0x9F, CHR 0x93, CHR 0x8A] @ '' REPORT ANALISI RECENSIONI'',
       rule80], None)"

definition summary :: "(json \<Rightarrow> string) \<Rightarrow> (string \<times> json) list \<Rightarrow> section_out" where
  "summary repr d =
     ([newline @ [CHR 0xF0, CHR 0x9F, CHR 0x8E, CHR 0xAF] @ '' Sentiment Score: ''
         @ py_str repr (dict_get d ''sentiment_score'' na) @ ''/100'',
       [CHR 0xF0, CHR 0x9F, CHR 0x93, CHR 0x88] @ '' Sentiment: ''
         @ py_str repr (dict_get d ''sentiment_label'' na),
       [CHR 0xF0, CHR 0x9F, CHR 0x93, CHR 0x9D] @ '' Recensioni analizzate: ''
         @ py_str repr (dict_get d ''numero_recensioni_analizzate'' na)], None)"

definition punto_lines :: "(json \<Rightarrow> string) \<Rightarrow> nat \<times> json \<Rightarrow> string list" where
  "punto_lines repr ip =
     (case ip of (i, punto) \<Rightarrow>
        (case punto of
           JObj p \<Rightarrow>
             [''   '' @ str_nat i @ ''. '' @ py_str repr (dict_get p ''problema'' punto),
              ''      Frequenza: '' @ py_str repr (dict_get p ''frequenza'' na)
                @ '' | Impatto: '' @ py_str repr (dict_get p ''impatto'' na)]
         | _ \<Rightarrow> [''   '' @ str_nat i @ ''. '' @ py_str repr punto]))"

definition punti_critici :: "(json \<Rightarrow> string) \<Rightarrow> (string \<times> json) list \<Rightarrow> section_out" where
  "punti_critici repr d =
     (let header = newline @ [CHR 0xE2, CHR 0x9A, CHR 0xA0, CHR 0xEF, CHR 0xB8, CHR 0x8F]
                     @ ''  PUNTI CRITICI:''
      in case py_iter (dict_get d ''punti_critici'' (JArr [])) of
           Inl e \<Rightarrow> ([header], Some e)
         | Inr xs \<Rightarrow> (header # concat (map (punto_lines repr) (enumerate_from 1 xs)), None))"

definition vantaggio_line :: "(json \<Rightarrow> string) \<Rightarrow> nat \<times> json \<Rightarrow> string" where
  "vantaggio_line repr iv =
     (case iv of (i, vantaggio) \<Rightarrow>
        (case vantaggio of
           JObj p \<Rightarrow> ''   '' @ str_nat i @ ''. '' @ py_str repr (dict_get p ''vantaggio'' vantaggio)
         | _ \<Rightarrow> ''   '' @ str_nat i @ ''. '' @ py_str repr vantaggio))"

definition vantaggi_competitivi :: "(json \<Rightarrow> string) \<Rightarrow> (string \<times> json) list \<Rightarrow> section_out" where
  "vantaggi_competitivi repr d =
     (let header = newline @ [CHR 0xE2, CHR 0x9C, CHR 0x85] @ '' VANTAGGI COMPETITIVI:''
      in case py_iter (dict_get d ''vantaggi_competitivi'' (JArr [])) of
           Inl e \<Rightarrow> ([header], Some e)
         | Inr xs \<Rightarrow> (header # map (vantaggio_line repr) (enumerate_from 1 xs), None))"

definition temi_header :: string where
  "temi_header = newline @ [CHR 0xF0, CHR 0x9F, CHR 0x94, CHR 0x8D] @ '' TEMI RICORRENTI:''"

definition temi_ricorrenti :: "(json \<Rightarrow> string) \<Rightarrow> (string \<times> json) list \<Rightarrow> section_out" where
  "temi_ricorrenti repr d =
     (case map_of d ''temi_ricorrenti'' of
        None \<Rightarrow> ([], None)
      | Some v \<Rightarrow>
          (case py_iter v of
             Inl e \<Rightarrow> ([temi_header], Some e)
           | Inr xs \<Rightarrow>
               (temi_header
                  # map (\<lambda>tema. ''   '' @ [CHR 0xE2, CHR 0x80, CHR 0xA2] @ '' '' @ py_str repr tema) xs,
                None)))"

definition consiglio :: "(json \<Rightarrow> string) \<Rightarrow> (string \<times> json) list \<Rightarrow> section_out" where
  "consiglio repr d =
     ([newline @ [CHR 0xF0, CHR 0x9F, CHR 0x94, CHR 0xA7] @ '' CONSIGLIO INGEGNERISTICO:'',
       ''   '' @ py_str repr (dict_get d ''consiglio_ingegneristico'' na)], None)"

definition strategia :: "(json \<Rightarrow> string) \<Rightarrow> (string \<times> json) list \<Rightarrow> section_out" where
  "strategia repr d =
     ([newline @ [CHR 0xF0, CHR 0x9F, CHR 0x93, CHR 0xA2] @ '' STRATEGIA MARKETING:'',
       ''   '' @ py_str repr (dict_get d ''strategia_marketing'' na)], None)"

definition priorita_header :: string where
  "priorita_header =
     newline @ [CHR 0xF0, CHR 0x9F, CHR 0x8E, CHR 0xAF] @ '' PRIORIT'' @ [CHR 0xC0]
       @ '' DI INTERVENTO:''"

definition priorita_intervento :: "(json \<Rightarrow> string) \<Rightarrow> (string \<times> json) list \<Rightarrow> section_out" where
  "priorita_intervento repr d =
     (case map_of d ''priorita_intervento'' of
        None \<Rightarrow> ([], None)
      | Some v \<Rightarrow>
          (case py_iter v of
             Inl e \<Rightarrow> ([priorita_header], Some e)
           | Inr xs \<Rightarrow>
               (priorita_header
                  # map (\<lambda>(i, priorita). ''   '' @ str_nat i @ ''. '' @ py_str repr priorita)
                      (enumerate_from 1 xs),
                None)))"

definition footer :: section_out where
  "footer = ([newline @ rule80 @ newline], None)"

fun run_sections :: "section_out list \<Rightarrow> string list \<Rightarrow> (error + unit) \<times> string list" where
  "run_sections [] out = (Inr (), out)"
| "run_sections ((printed, None) # rest) out = run_sections rest (out @ printed)"
| "run_sections ((printed, Some e) # rest) out = (Inl e, out @ printed)"

text \<open>
  The report of a value that is not a \<open>dict\<close> stops at the first \<open>.get\<close>, after the
  banner.
\<close>

definition stampa_report ::
  "(json \<Rightarrow> string) \<Rightarrow> json \<Rightarrow> string list \<Rightarrow> (error + unit) \<times> string list" where
  "stampa_report repr risultato out =
     (case risultato of
        JObj d \<Rightarrow>
          run_sections
            [banner, summary repr d, punti_critici repr d, vantaggi_competitivi repr d,
             temi_ricorrenti repr d, consiglio repr d, strategia repr d,
             priorita_intervento repr d, footer] out
      | _ \<Rightarrow>
          run_sections
            [banner,
             ([], Some (AttributeError (quote @ type_name risultato @ quote
                          @ '' object has no attribute '' @ quote @ ''get'' @ quote)))] out)"

section \<open>The entry point (lines 240 to 261)\<close>

text \<open>
  The state of a run: what was printed, the file system, the log. The entry point gives
  the exit status with the final state.
\<close>

record 'fs run_state =
  stdout :: "string list"
  files :: "'fs"
  logged :: "(level \<times> string) list"

definition fail_run :: "error \<Rightarrow> 'fs run_state \<Rightarrow> nat \<times> 'fs run_state" where
  "fail_run e st =
     (1, st\<lparr>logged := logged st @ [(ERROR, ''Errore durante l'' @ quote @ ''esecuzione: '' @ str_exc e)],
            stdout := stdout st @ [newline @ [CHR 0xE2, CHR 0x9D, CHR 0x8C] @ '' Errore: '' @ str_exc e]\<rparr>)"

definition main :: "'fs world \<Rightarrow> (json \<Rightarrow> string) \<Rightarrow> 'fs run_state \<Rightarrow> nat \<times> 'fs run_state" where
  "main w repr st =
     (case fst (analizza_dati w ''recensioni.csv'' 50 ''a-size-base 3'') of
        Inl e \<Rightarrow> fail_run e st
      | Inr risultato \<Rightarrow>
          (case stampa_report repr risultato (stdout st) of
             (Inl e, out) \<Rightarrow> fail_run e (st\<lparr>stdout := out\<rparr>)
           | (Inr _, out) \<Rightarrow>
               (case salva_risultati w risultato ''analisi_risultati.json'' (files st, logged st) of
                  (Inl e, fs, log) \<Rightarrow> fail_run e (st\<lparr>stdout := out, files := fs, logged := log\<rparr>)
                | (Inr _, fs, log) \<Rightarrow>
                    (0, st\<lparr>stdout := out
                              @ [[CHR 0xF0, CHR 0x9F, CHR 0x93, CHR 0x84] @ '' Output JSON completo:'',
                                 dumps w risultato],
                           files := fs, logged := log\<rparr>))))"

section \<open>Notions of the specification and sample inputs\<close>

text \<open>
  The specification's usable row, in its words: a row is excluded when its trimmed text is
  empty or equals the token \<open>nan\<close>, a missing value being an empty text. Beside it, the
  rows on which the code departs from that: the text \<open>nan\<close> with blanks around it.
\<close>

definition usable :: "cell \<Rightarrow> bool" where
  "usable x = (case x of NaN \<Rightarrow> False | Val s \<Rightarrow> \<not> (strip s = [] \<or> strip s = ''nan''))"

definition padded_nan :: "cell \<Rightarrow> bool" where
  "padded_nan x = (case x of NaN \<Rightarrow> False | Val s \<Rightarrow> strip s = ''nan'' \<and> s \<noteq> ''nan'')"

text \<open>
  A sample world for concrete runs: one file, a fixed table, a reply per model identifier,
  and a parser that accepts the empty object only.
\<close>

definition sample_loads :: "string \<Rightarrow> string + json" where
  "sample_loads s = (if s = ''{}'' then Inr (JObj []) else Inl ''Expecting value'')"

definition sample_world :: "dataframe \<Rightarrow> (string \<Rightarrow> error + string) \<Rightarrow> unit world" where
  "sample_world df reply =
     \<lparr>path_exists = (\<lambda>p. p = ''recensioni.csv''),
      read_csv = (\<lambda>p. Inr df),
      generate_content = (\<lambda>model_name prompt. reply model_name),
      loads = sample_loads,
      dumps = (\<lambda>v. ''{}''),
      dump_to_file = (\<lambda>p v fs. (fs, None))\<rparr>"

definition sample_table :: dataframe where
  "sample_table =
     [(''body'', [Val ''ok'', NaN, Val ''also ok'']),
      (''a-size-base 3'', [NaN, Val '' nan '', Val ''fine''])]"

definition padded_table :: dataframe where
  "padded_table = [(''body'', [Val ''ok'', Val '' nan ''])]"

text \<open>
  A sample service where the first identifier is unavailable and every other replies with
  the empty object inside a Markdown fence.
\<close>

definition second_replies :: "string \<Rightarrow> error + string" where
  "second_replies model_name =
     (if model_name = ''models/gemini-2.5-flash'' then Inl (ApiError ''503 UNAVAILABLE'')
      else Inr (fence @ ''json'' @ newline @ ''{}'' @ newline @ fence))"

text \<open>
  Two services whose body is not JSON, so that the client itself raises the decode error:
  for every identifier, or for the first one only, the others replying as above.
\<close>

definition bad_body_always :: "string \<Rightarrow> error + string" where
  "bad_body_always model_name = Inl (JSONDecodeError ''Expecting value: line 1 column 1 (char 0)'')"

definition bad_body_first :: "string \<Rightarrow> error + string" where
  "bad_body_first model_name =
     (if model_name = ''models/gemini-2.5-flash''
      then Inl (JSONDecodeError ''Expecting value: line 1 column 1 (char 0)'')
      else Inr (fence @ ''json'' @ newline @ ''{}'' @ newline @ fence))"

text \<open>
  The shape the data model gives the fields the report loops over: a present value is a
  sequence, or anything else a \<open>for\<close> loop accepts.
\<close>

definition iterable :: "json \<Rightarrow> bool" where
  "iterable v = (case py_iter v of Inl e \<Rightarrow> False | Inr xs \<Rightarrow> True)"

definition looped_fields :: "string list" where
  "looped_fields =
     [''punti_critici'', ''vantaggi_competitivi'', ''temi_ricorrenti'', ''priorita_intervento'']"

text \<open>
  A sample conversion of values that are not texts, and a world whose disk refuses the
  write.
\<close>

definition sample_repr :: "json \<Rightarrow> string" where
  "sample_repr v = ''<'' @ type_name v @ ''>''"

definition read_only_world :: "unit world" where
  "read_only_world =
     (sample_world sample_table second_replies)
       \<lparr>dump_to_file := (\<lambda>p v fs. (fs, Some (OSError ''[Errno 13] Permission denied'')))\<rparr>"

text \<open>
  \<open>sub in s\<close>: the text \<open>sub\<close> occurs somewhere in \<open>s\<close>. The Markdown wrapping of a
  JSON text is the fence with the tag \<open>json\<close>, the text on its own lines, and the fence.
\<close>

fun occurs_in :: "string \<Rightarrow> string \<Rightarrow> bool" where
  "occurs_in sub [] = (sub = [])"
| "occurs_in sub (c # cs) = (startswith (c # cs) sub \<or> occurs_in sub cs)"

definition fenced :: "string \<Rightarrow> string" where
  "fenced j = fence @ ''json'' @ newline @ j @ newline @ fence"

section \<open>Auxiliary facts\<close>

lemma map_of_setitem: "map_of (setitem df k c) = (map_of df)(k \<mapsto> c)"
  by (induction df k c rule: setitem.induct) auto

lemma columns_setitem: "k \<in> set (columns df) \<Longrightarrow> columns (setitem df k c) = columns df"
  unfolding columns_def by (induction df k c rule: setitem.induct) auto

lemma in_columns_iff: "k \<in> set (columns df) \<longleftrightarrow> map_of df k \<noteq> None"
  unfolding columns_def by (simp add: map_of_eq_None_iff)

lemma reviews_list_of_absent:
  "col \<notin> set (columns df) \<Longrightarrow>
   reviews_list_of df m col =
     Inl (ValueError (''Colonna '' @ quote @ col @ quote
            @ '' non trovata. Colonne disponibili: '' @ join '', '' (columns df)))"
  by (simp add: reviews_list_of_def)

lemma reviews_list_of_own:
  assumes "map_of df col = Some c"
    and "override_column \<notin> set (columns df) \<or> col = override_column"
  shows "reviews_list_of df m col = Inr (slice_to m (astype_str (fillna [] c)))"
proof -
  have incol: "col \<in> set (columns df)" using assms(1) by (simp add: in_columns_iff)
  show ?thesis using assms incol
    by (auto simp: reviews_list_of_def getitem_def Let_def columns_setitem map_of_setitem)
qed

lemma reviews_list_of_override:
  assumes "map_of df col = Some c" and "col \<noteq> override_column"
    and "map_of df override_column = Some c'"
  shows "reviews_list_of df m col = Inr (slice_to m (astype_str c'))"
proof -
  have incol: "col \<in> set (columns df)" using assms(1) by (simp add: in_columns_iff)
  have inov: "override_column \<in> set (columns df)" using assms(3) by (simp add: in_columns_iff)
  show ?thesis using assms incol inov
    by (auto simp: reviews_list_of_def getitem_def Let_def columns_setitem map_of_setitem)
qed

lemma strip_Nil [simp]: "strip [] = []"
  by (simp add: strip_def lstrip_def rstrip_def)

lemma enumerate_from_0: "enumerate_from 0 xs = map (\<lambda>i. (i, xs ! i)) [0..<length xs]"
  by (rule nth_equalityI) (simp_all add: enumerate_from_def)

lemma kept_rows_eq:
  "kept_rows rl = map (\<lambda>i. (i, rl ! i)) (filter (\<lambda>i. kept (rl ! i)) [0..<length rl])"
  by (simp add: kept_rows_def enumerate_from_0 filter_map comp_def)

lemma length_review_blocks: "length (review_blocks rl) = length (filter kept rl)"
proof -
  have "length (filter kept rl) = length (filter kept (map (\<lambda>i. rl ! i) [0..<length rl]))"
    by (simp add: map_nth)
  also have "\<dots> = length (filter (\<lambda>i. kept (rl ! i)) [0..<length rl])"
    by (simp add: filter_map comp_def)
  finally show ?thesis by (simp add: review_blocks_def kept_rows_eq)
qed

lemma slice_to_nonneg: "0 \<le> m \<Longrightarrow> slice_to m xs = take (nat m) xs"
  by (simp add: slice_to_def)

lemma strip_nan [simp]: "strip ''nan'' = ''nan''"
  by code_simp

lemma kept_astype:
  "length (filter kept (astype_str c))
     = length (filter usable c) + length (filter padded_nan c)"
  by (induction c) (auto simp: astype_str_def usable_def padded_nan_def kept_def split: cell.splits)

lemma kept_astype_fillna:
  "length (filter kept (astype_str (fillna [] c)))
     = length (filter usable c) + length (filter padded_nan c)"
  by (induction c)
     (auto simp: astype_str_def fillna_def usable_def padded_nan_def kept_def split: cell.splits)

lemma load_reviews_ok:
  "path_exists w f \<Longrightarrow> read_csv w f = Inr df \<Longrightarrow> reviews_list_of df m col = Inr rl \<Longrightarrow>
   load_reviews w f m col = Inr (render_reviews rl, length rl)"
  by (simp add: load_reviews_def)

lemma load_reviews_err:
  "path_exists w f \<Longrightarrow> read_csv w f = Inr df \<Longrightarrow> reviews_list_of df m col = Inl e \<Longrightarrow>
   load_reviews w f m col = Inl e"
  by (simp add: load_reviews_def)

section \<open>Claims about the loader\<close>

text \<open>
  C1 (as amended). For every table that \<open>read_csv\<close> parses, the loader fails exactly when
  the header lacks the requested \<open>column_name\<close>, whether or not the column
  \<open>a-size-base 3\<close> is there, and the error is the \<open>ValueError\<close> that names the
  available columns. When the requested column is present and \<open>a-size-base 3\<close> is
  another column of the header, the reviews are read from \<open>a-size-base 3\<close>.
\<close>

theorem loader_fails_iff_requested_column_absent:
  assumes "path_exists w f" and "read_csv w f = Inr df"
  shows "((\<exists>e. load_reviews w f m col = Inl e) \<longleftrightarrow> col \<notin> set (columns df))
       \<and> (col \<notin> set (columns df) \<longrightarrow>
            load_reviews w f m col =
              Inl (ValueError (''Colonna '' @ quote @ col @ quote
                     @ '' non trovata. Colonne disponibili: '' @ join '', '' (columns df))))
       \<and> (col \<in> set (columns df) \<longrightarrow> col \<noteq> override_column \<longrightarrow>
            (\<forall>c'. map_of df override_column = Some c' \<longrightarrow>
               load_reviews w f m col
                 = Inr (render_reviews (slice_to m (astype_str c')),
                        length (slice_to m (astype_str c')))))"
proof (cases "col \<in> set (columns df)")
  case False
  then show ?thesis
    using load_reviews_err [OF assms reviews_list_of_absent [of col df m]] by simp
next
  case True
  then obtain c where c: "map_of df col = Some c"
    by (auto simp: in_columns_iff)
  have ok: "\<exists>rl. reviews_list_of df m col = Inr rl"
  proof (cases "col \<noteq> override_column \<and> override_column \<in> set (columns df)")
    case True
    then obtain c' where "map_of df override_column = Some c'"
      by (auto simp: in_columns_iff)
    with True c show ?thesis
      using reviews_list_of_override [of df col c c' m] by blast
  next
    case False
    with c show ?thesis
      using reviews_list_of_own [of df col c m] by blast
  qed
  then obtain rl where rl: "reviews_list_of df m col = Inr rl" ..
  have succ: "\<not> (\<exists>e. load_reviews w f m col = Inl e)"
    using load_reviews_ok [OF assms rl] by simp
  have over: "\<forall>c'. col \<noteq> override_column \<longrightarrow> map_of df override_column = Some c' \<longrightarrow>
               load_reviews w f m col
                 = Inr (render_reviews (slice_to m (astype_str c')),
                        length (slice_to m (astype_str c')))"
    using c load_reviews_ok [OF assms] reviews_list_of_override [of df col c _ m] by blast
  show ?thesis using True succ over by blast
qed

text \<open>
  The theorem at a sample table: the requested column \<open>body\<close> is present and the
  reviews come from \<open>a-size-base 3\<close>; the absent column \<open>titolo\<close> gives the error.
\<close>

theorem loader_fails_iff_requested_column_absent_witness:
  "((\<exists>e. load_reviews (sample_world sample_table (\<lambda>m. Inr ''{}'')) ''recensioni.csv'' 2 ''body'' = Inl e)
      \<longleftrightarrow> ''body'' \<notin> set (columns sample_table))
   \<and> load_reviews (sample_world sample_table (\<lambda>m. Inr ''{}'')) ''recensioni.csv'' 2 ''titolo''
       = Inl (ValueError (''Colonna '' @ quote @ ''titolo'' @ quote
                @ '' non trovata. Colonne disponibili: body, a-size-base 3''))
   \<and> load_reviews (sample_world sample_table (\<lambda>m. Inr ''{}'')) ''recensioni.csv'' 2 ''body''
       = Inr (''Recensione 2:  nan '', 2)"
proof -
  let ?w = "sample_world sample_table (\<lambda>m. Inr ''{}'')"
  have p: "path_exists ?w ''recensioni.csv''" by (simp add: sample_world_def)
  have r: "read_csv ?w ''recensioni.csv'' = Inr sample_table" by (simp add: sample_world_def)
  have cols: "columns sample_table = [''body'', ''a-size-base 3'']"
    by (simp add: columns_def sample_table_def)
  have ov: "map_of sample_table override_column = Some [NaN, Val '' nan '', Val ''fine'']"
    by (simp add: sample_table_def override_column_def)
  have rr: "render_reviews (slice_to 2 (astype_str [NaN, Val '' nan '', Val ''fine'']))
              = ''Recensione 2:  nan ''"
    by code_simp
  have ll: "length (slice_to 2 (astype_str [NaN, Val '' nan '', Val ''fine''])) = 2"
    by code_simp
  from loader_fails_iff_requested_column_absent [OF p r, of 2 "''body''"]
       loader_fails_iff_requested_column_absent [OF p r, of 2 "''titolo''"]
  show ?thesis
    unfolding cols using ov rr ll by (simp add: override_column_def)
qed

text \<open>
  C1 as stated fails: with \<open>a-size-base 3\<close> in the header and the requested column
  \<open>body\<close> absent, the loader raises the error instead of using the override column.
\<close>

theorem loader_override_alone_counterexample:
  "path_exists (sample_world [(''a-size-base 3'', [Val ''good''])] (\<lambda>m. Inr ''{}'')) ''recensioni.csv''
   \<and> read_csv (sample_world [(''a-size-base 3'', [Val ''good''])] (\<lambda>m. Inr ''{}'')) ''recensioni.csv''
       = Inr [(''a-size-base 3'', [Val ''good''])]
   \<and> override_column \<in> set (columns [(''a-size-base 3'', [Val ''good''])])
   \<and> load_reviews (sample_world [(''a-size-base 3'', [Val ''good''])] (\<lambda>m. Inr ''{}''))
        ''recensioni.csv'' 50 ''body''
       = Inl (ValueError (''Colonna '' @ quote @ ''body'' @ quote
                @ '' non trovata. Colonne disponibili: a-size-base 3''))"
  by (simp add: sample_world_def load_reviews_def reviews_list_of_def columns_def override_column_def)

lemma kept_rows_member:
  "i < length rl \<Longrightarrow> ((i, rl ! i) \<in> set (kept_rows rl)) \<longleftrightarrow> kept (rl ! i)"
  by (auto simp: kept_rows_eq)

lemma kept_rows_shape: "(i, rv) \<in> set (kept_rows rl) \<Longrightarrow> i < length rl \<and> rv = rl ! i"
  by (auto simp: kept_rows_eq)

text \<open>
  C6 (as amended). The rendered blocks are those of the rows the comprehension keeps, each
  kept with its position in the truncated slice, and a row of the slice is left out exactly
  when its trimmed text is empty or its text, untrimmed, is the token \<open>nan\<close>.
\<close>

theorem row_excluded_iff_blank_or_exactly_nan:
  "review_blocks rl = map (\<lambda>(i, rv). block i rv) (kept_rows rl)
   \<and> (\<forall>i rv. (i, rv) \<in> set (kept_rows rl) \<longrightarrow> i < length rl \<and> rv = rl ! i)
   \<and> (\<forall>i < length rl.
         ((i, rl ! i) \<notin> set (kept_rows rl)) \<longleftrightarrow> (strip (rl ! i) = [] \<or> rl ! i = ''nan''))"
  using kept_rows_member [of _ rl] kept_rows_shape [of _ _ rl]
  by (auto simp: review_blocks_def kept_def)

text \<open>
  The theorem at a slice of four rows: the blank row and the row \<open>nan\<close> are left out,
  the row \<open>nan\<close> with a blank on each side is kept.
\<close>

theorem row_excluded_iff_blank_or_exactly_nan_witness:
  "kept_rows [''ok'', ''   '', ''nan'', '' nan ''] = [(0, ''ok''), (3, '' nan '')]
   \<and> strip ''   '' = [] \<and> strip ''ok'' \<noteq> [] \<and> strip '' nan '' \<noteq> []"
proof -
  have k: "kept_rows [''ok'', ''   '', ''nan'', '' nan ''] = [(0, ''ok''), (3, '' nan '')]"
    by code_simp
  have s: "strip ''   '' = [] \<and> strip ''ok'' \<noteq> [] \<and> strip '' nan '' \<noteq> []"
    by code_simp
  from row_excluded_iff_blank_or_exactly_nan [of "[''ok'', ''   '', ''nan'', '' nan '']"]
  show ?thesis using k s by simp
qed

text \<open>
  C6 as stated fails: a row whose text is \<open>nan\<close> with a blank on each side has the
  trimmed text \<open>nan\<close>, and it is rendered.
\<close>

theorem padded_nan_row_is_rendered_counterexample:
  "strip '' nan '' = ''nan'' \<and> review_blocks ['' nan ''] = [''Recensione 1:  nan '']"
  by code_simp

text \<open>
  C10. The number printed in a block is the row's position in the truncated slice,
  counted from one and before filtering: the blocks are those of the kept positions, each
  under its own position. With the rows \<open>ok\<close>, empty, \<open>also ok\<close> the blocks are
  numbered 1 and 3.
\<close>

theorem block_index_is_position_in_slice:
  "review_blocks rl
     = map (\<lambda>i. ''Recensione '' @ str_nat (i + 1) @ '': '' @ rl ! i)
         (filter (\<lambda>i. kept (rl ! i)) [0..<length rl])
   \<and> review_blocks [''ok'', '''', ''also ok''] = [''Recensione 1: ok'', ''Recensione 3: also ok'']"
proof -
  have ex: "review_blocks [''ok'', '''', ''also ok''] = [''Recensione 1: ok'', ''Recensione 3: also ok'']"
    by code_simp
  show ?thesis using ex by (simp add: review_blocks_def kept_rows_eq comp_def block_def)
qed

lemma analizza_dati_ok:
  "load_reviews w f m col = Inr (reviews, n) \<Longrightarrow>
   analizza_dati w f m col = try_models w (build_prompt reviews n) model_names None None []"
  by (simp add: analizza_dati_def)

lemma astype_str_length [simp]: "length (astype_str c) = length c"
  by (simp add: astype_str_def)

lemma fillna_length [simp]: "length (fillna v c) = length c"
  by (simp add: fillna_def)

lemma astype_str_take: "take n (astype_str c) = astype_str (take n c)"
  by (simp add: astype_str_def take_map)

lemma fillna_take: "take n (fillna v c) = fillna v (take n c)"
  by (simp add: fillna_def take_map)

lemma chosen_reviews_list:
  assumes "col \<in> set (columns df)"
    and "map_of df (if override_column \<in> set (columns df) then override_column else col) = Some c"
  shows "reviews_list_of df m col
           = Inr (slice_to m (astype_str
                    (if override_column \<in> set (columns df) \<and> col \<noteq> override_column
                     then c else fillna [] c)))"
proof (cases "override_column \<in> set (columns df) \<and> col \<noteq> override_column")
  case True
  from assms(1) obtain c0 where "map_of df col = Some c0" by (auto simp: in_columns_iff)
  with True assms(2) show ?thesis
    using reviews_list_of_override [of df col c0 c m] by simp
next
  case False
  then have "map_of df col = Some c" using assms(2) by (auto split: if_splits)
  with False show ?thesis
    using reviews_list_of_own [of df col c m] by auto
qed

text \<open>
  C2 (as amended). When the header has the requested column and the chosen column
  (\<open>a-size-base 3\<close> if the header has it, else the requested column) has fewer than
  \<open>max_reviews\<close> usable rows, the loader succeeds with a list \<open>reviews_list\<close> such that
  the number of rendered blocks is the number of entries among the first \<open>max_reviews\<close>
  rows that are not blank once trimmed and are not exactly the token \<open>nan\<close>: the usable
  ones and, beside them, those whose text is \<open>nan\<close> with blanks around it. The length of
  the list is \<open>min(row_count, max_reviews)\<close>, counted before filtering, and the prompt
  sent to the models carries that length right after the name of the field
  \<open>numero_recensioni_analizzate\<close>.
\<close>

theorem rendered_count_and_batch_size:
  assumes "path_exists w f" and "read_csv w f = Inr df" and "col \<in> set (columns df)"
    and "map_of df (if override_column \<in> set (columns df) then override_column else col) = Some c"
    and "int (length (filter usable c)) < m"
  shows "\<exists>rl. load_reviews w f m col = Inr (render_reviews rl, length rl)
            \<and> length (review_blocks rl)
                = length (filter usable (take (nat m) c))
                    + length (filter padded_nan (take (nat m) c))
            \<and> int (length rl) = min (int (length c)) m
            \<and> analizza_dati w f m col
                = try_models w
                    (prompt_head @ str_nat (nat (min (int (length c)) m)) @ prompt_mid
                       @ render_reviews rl @ prompt_tail)
                    model_names None None []
            \<and> (\<exists>intro. prompt_head = intro @ count_field)"
proof -
  let ?c' = "if override_column \<in> set (columns df) \<and> col \<noteq> override_column then c else fillna [] c"
  let ?rl = "slice_to m (astype_str ?c')"
  have m0: "0 \<le> m" using assms(5) by linarith
  have rl: "reviews_list_of df m col = Inr ?rl"
    using chosen_reviews_list [OF assms(3,4)] .
  have load: "load_reviews w f m col = Inr (render_reviews ?rl, length ?rl)"
    using load_reviews_ok [OF assms(1,2) rl] .
  have rl_take: "?rl = astype_str (if override_column \<in> set (columns df) \<and> col \<noteq> override_column
                                  then take (nat m) c else fillna [] (take (nat m) c))"
    using m0 by (simp add: slice_to_nonneg astype_str_take fillna_take)
  have cnt: "length (review_blocks ?rl)
               = length (filter usable (take (nat m) c))
                   + length (filter padded_nan (take (nat m) c))"
  proof (cases "override_column \<in> set (columns df) \<and> col \<noteq> override_column")
    case True
    then have "?rl = astype_str (take (nat m) c)" using rl_take by simp
    then show ?thesis by (simp only: length_review_blocks kept_astype)
  next
    case False
    then have "?rl = astype_str (fillna [] (take (nat m) c))" using rl_take by auto
    then show ?thesis by (simp only: length_review_blocks kept_astype_fillna)
  qed
  have len: "int (length ?rl) = min (int (length c)) m"
  proof -
    have "length ?rl = min (length c) (nat m)"
      using m0 by (simp add: slice_to_nonneg)
    then show ?thesis using m0 by linarith
  qed
  have prompt: "analizza_dati w f m col
                = try_models w
                    (prompt_head @ str_nat (nat (min (int (length c)) m)) @ prompt_mid
                       @ render_reviews ?rl @ prompt_tail)
                    model_names None None []"
  proof -
    have "nat (min (int (length c)) m) = length ?rl" using len by simp
    then show ?thesis
      using analizza_dati_ok [OF load] by (simp add: build_prompt_def)
  qed
  have field: "\<exists>intro. prompt_head = intro @ count_field"
    unfolding prompt_head_def by (metis append.assoc)
  from load cnt len prompt field show ?thesis by blast
qed

text \<open>
  The theorem at the sample table with \<open>max_reviews = 5\<close>: of the three rows of
  \<open>a-size-base 3\<close> one is usable and one is \<open>nan\<close> between blanks, so two blocks and a
  batch size of three.
\<close>

theorem rendered_count_and_batch_size_witness:
  "path_exists (sample_world sample_table (\<lambda>m. Inr ''{}'')) ''recensioni.csv''
   \<and> read_csv (sample_world sample_table (\<lambda>m. Inr ''{}'')) ''recensioni.csv'' = Inr sample_table
   \<and> ''body'' \<in> set (columns sample_table)
   \<and> map_of sample_table override_column = Some [NaN, Val '' nan '', Val ''fine'']
   \<and> int (length (filter usable [NaN, Val '' nan '', Val ''fine''])) < 5
   \<and> (\<exists>rl. load_reviews (sample_world sample_table (\<lambda>m. Inr ''{}'')) ''recensioni.csv'' 5 ''body''
               = Inr (render_reviews rl, length rl)
           \<and> length (review_blocks rl) = 2 \<and> int (length rl) = 3)"
proof -
  let ?w = "sample_world sample_table (\<lambda>m. Inr ''{}'')"
  let ?c = "[NaN, Val '' nan '', Val ''fine'']"
  have p: "path_exists ?w ''recensioni.csv''" by (simp add: sample_world_def)
  have r: "read_csv ?w ''recensioni.csv'' = Inr sample_table" by (simp add: sample_world_def)
  have col: "''body'' \<in> set (columns sample_table)"
    by (simp add: columns_def sample_table_def)
  have ovc: "override_column \<in> set (columns sample_table)"
    by (simp add: columns_def sample_table_def override_column_def)
  have ov: "map_of sample_table override_column = Some ?c"
    by (simp add: sample_table_def override_column_def)
  have ch: "map_of sample_table
              (if override_column \<in> set (columns sample_table) then override_column else ''body'')
            = Some ?c"
    using ovc ov by simp
  have us: "filter usable ?c = [Val ''fine'']" by code_simp
  have us': "filter usable (take (nat 5) ?c) = [Val ''fine'']" by code_simp
  have pn: "filter padded_nan (take (nat 5) ?c) = [Val '' nan '']" by code_simp
  have lt: "int (length (filter usable ?c)) < 5" using us by simp
  from rendered_count_and_batch_size [OF p r col ch lt]
  obtain rl where "load_reviews ?w ''recensioni.csv'' 5 ''body'' = Inr (render_reviews rl, length rl)"
    and "length (review_blocks rl)
           = length (filter usable (take (nat 5) ?c)) + length (filter padded_nan (take (nat 5) ?c))"
    and "int (length rl) = min (int (length ?c)) 5"
    by blast
  then have "load_reviews ?w ''recensioni.csv'' 5 ''body'' = Inr (render_reviews rl, length rl)
             \<and> length (review_blocks rl) = 2 \<and> int (length rl) = 3"
    using us' pn by simp
  then show ?thesis using p r col ov lt by blast
qed

text \<open>
  C2 as stated fails: of the two rows \<open>ok\<close> and \<open>nan\<close> between blanks, one is usable,
  fewer than \<open>max_reviews = 5\<close>, and two blocks are rendered. The batch size is two, as
  the claim says.
\<close>

theorem padded_nan_row_is_counted_counterexample:
  "path_exists (sample_world padded_table (\<lambda>m. Inr ''{}'')) ''recensioni.csv''
   \<and> read_csv (sample_world padded_table (\<lambda>m. Inr ''{}'')) ''recensioni.csv'' = Inr padded_table
   \<and> map_of padded_table ''body'' = Some [Val ''ok'', Val '' nan '']
   \<and> override_column \<notin> set (columns padded_table)
   \<and> filter usable [Val ''ok'', Val '' nan ''] = [Val ''ok'']
   \<and> filter usable (take (nat 5) [Val ''ok'', Val '' nan '']) = [Val ''ok'']
   \<and> load_reviews (sample_world padded_table (\<lambda>m. Inr ''{}'')) ''recensioni.csv'' 5 ''body''
       = Inr (render_reviews [''ok'', '' nan ''], 2)
   \<and> review_blocks [''ok'', '' nan ''] = [''Recensione 1: ok'', ''Recensione 2:  nan '']"
  by code_simp

text \<open>
  C7 (as amended). A missing value of the chosen column is never rendered. It is coerced to
  the empty text when the chosen column is the requested one; when the reviews are read
  from \<open>a-size-base 3\<close> and a different column was requested, the missing value is not
  coerced and becomes the text \<open>nan\<close>.
\<close>

theorem missing_values_of_the_chosen_column:
  assumes "col \<in> set (columns df)"
    and "map_of df (if override_column \<in> set (columns df) then override_column else col) = Some c"
    and "reviews_list_of df m col = Inr rl"
    and "i < length rl" and "c ! i = NaN"
  shows "rl ! i = (if override_column \<in> set (columns df) \<and> col \<noteq> override_column
                   then ''nan'' else [])
       \<and> (i, rl ! i) \<notin> set (kept_rows rl)"
proof -
  let ?c' = "if override_column \<in> set (columns df) \<and> col \<noteq> override_column then c else fillna [] c"
  have rl: "rl = slice_to m (astype_str ?c')"
    using chosen_reviews_list [OF assms(1,2), of m] assms(3) by simp
  have sl: "\<And>xs :: string list. i < length (slice_to m xs) \<Longrightarrow> slice_to m xs ! i = xs ! i"
    by (simp add: slice_to_def split: if_splits)
  have le: "\<And>xs :: string list. i < length (slice_to m xs) \<Longrightarrow> i < length xs"
    by (simp add: slice_to_def split: if_splits)
  have i_c: "i < length c"
    using le [of "astype_str ?c'"] assms(4) rl by (simp split: if_splits)
  have val: "rl ! i = astype_str ?c' ! i"
    using sl [of "astype_str ?c'"] assms(4) rl by simp
  have v: "rl ! i = (if override_column \<in> set (columns df) \<and> col \<noteq> override_column
                     then ''nan'' else [])"
    using val i_c assms(5) by (simp add: astype_str_def fillna_def)
  have k: "\<not> kept (rl ! i)"
    using v by (simp add: kept_def)
  show ?thesis using v k kept_rows_member [OF assms(4)] by simp
qed

text \<open>
  The theorem at the sample table, where \<open>body\<close> is requested and the reviews come from
  \<open>a-size-base 3\<close>, and at a table with the column \<open>body\<close> alone.
\<close>

theorem missing_values_of_the_chosen_column_witness:
  "reviews_list_of sample_table 50 ''body'' = Inr [''nan'', '' nan '', ''fine'']
   \<and> [''nan'', '' nan '', ''fine''] ! 0 = ''nan''
   \<and> (0, ''nan'') \<notin> set (kept_rows [''nan'', '' nan '', ''fine''])
   \<and> reviews_list_of [(''body'', [NaN, Val ''good''])] 50 ''body'' = Inr [[], ''good'']
   \<and> (0, []) \<notin> set (kept_rows [[], ''good''])"
proof -
  have col: "''body'' \<in> set (columns sample_table)"
    by (simp add: columns_def sample_table_def)
  have ovc: "override_column \<in> set (columns sample_table)"
    by (simp add: columns_def sample_table_def override_column_def)
  have ch: "map_of sample_table
              (if override_column \<in> set (columns sample_table) then override_column else ''body'')
            = Some [NaN, Val '' nan '', Val ''fine'']"
    using ovc by (simp add: sample_table_def override_column_def)
  have rl: "reviews_list_of sample_table 50 ''body'' = Inr [''nan'', '' nan '', ''fine'']"
    by code_simp
  have ne: "''body'' \<noteq> override_column" by (simp add: override_column_def)
  have a: "[''nan'', '' nan '', ''fine''] ! 0 = ''nan''
           \<and> (0, ''nan'') \<notin> set (kept_rows [''nan'', '' nan '', ''fine''])"
    using missing_values_of_the_chosen_column [OF col ch rl, of 0] ovc ne by simp
  let ?df = "[(''body'', [NaN, Val ''good''])]"
  have col2: "''body'' \<in> set (columns ?df)" by (simp add: columns_def)
  have ovc2: "override_column \<notin> set (columns ?df)"
    by (simp add: columns_def override_column_def)
  have ch2: "map_of ?df (if override_column \<in> set (columns ?df) then override_column else ''body'')
             = Some [NaN, Val ''good'']"
    using ovc2 by simp
  have rl2: "reviews_list_of ?df 50 ''body'' = Inr [[], ''good'']" by code_simp
  have b: "(0, []) \<notin> set (kept_rows [[], ''good''])"
    using missing_values_of_the_chosen_column [OF col2 ch2 rl2, of 0] ovc2 by simp
  show ?thesis using rl a rl2 b by blast
qed

text \<open>
  C7 as stated fails: with \<open>body\<close> requested and \<open>a-size-base 3\<close> in the header, a
  missing value of \<open>a-size-base 3\<close> reaches the list of reviews as \<open>nan\<close>, not as the
  empty text.
\<close>

theorem override_nulls_not_coerced_counterexample:
  "override_column \<in> set (columns [(''body'', [Val ''x'']), (''a-size-base 3'', [NaN])])
   \<and> reviews_list_of [(''body'', [Val ''x'']), (''a-size-base 3'', [NaN])] 50 ''body'' = Inr [''nan'']"
  by code_simp

section \<open>Claims about the model invoker\<close>

lemma attempt_parse_failure:
  "generate_content w m p = Inr reply \<Longrightarrow> clean_response (strip reply) = Inr c \<Longrightarrow>
   loads w c = Inl msg \<Longrightarrow>
   attempt w p m tr
     = (Recorded (ValueError (''Risposta API non valida. Errore JSON: '' @ msg)), Some c)"
  by (simp add: attempt_def)

lemma attempt_success:
  "generate_content w m p = Inr reply \<Longrightarrow> clean_response (strip reply) = Inr c \<Longrightarrow>
   loads w c = Inr r \<Longrightarrow> attempt w p m tr = (Returned r, Some c)"
  by (simp add: attempt_def)

text \<open>
  As long as no pass ends in an exception that leaves the function, the loop does what its
  comments say: when every pass records an error, all identifiers are attempted and the
  error recorded last is raised, the generic one for an empty list; and the first pass that
  returns a value ends the loop.
\<close>

lemma try_models_all_recorded:
  "(\<And>m tr. m \<in> set names \<Longrightarrow> fst (attempt w p m tr) = Recorded (err m)) \<Longrightarrow>
   try_models w p names last_error text_response tried =
     (Inl (if names = []
           then (case last_error of
                   Some e \<Rightarrow> e
                 | None \<Rightarrow> Exception ''Impossibile generare contenuto con nessun modello disponibile'')
           else err (last names)),
      tried @ names)"
proof (induction names arbitrary: last_error text_response tried)
  case Nil
  then show ?case by simp
next
  case (Cons m ms)
  obtain o' tr' where a: "attempt w p m text_response = (o', tr')"
    by (cases "attempt w p m text_response")
  have "fst (attempt w p m text_response) = Recorded (err m)" using Cons.prems by simp
  then have o': "o' = Recorded (err m)" using a by simp
  have tl: "\<And>x tr. x \<in> set ms \<Longrightarrow> fst (attempt w p x tr) = Recorded (err x)"
    using Cons.prems by simp
  show ?case
    using Cons.IH [OF tl, of "Some (err m)" tr' "tried @ [m]"] a o' by simp
qed

lemma try_models_first_success:
  "(\<And>x tr. x \<in> set pre \<Longrightarrow> \<exists>e. fst (attempt w p x tr) = Recorded e) \<Longrightarrow>
   (\<And>tr. fst (attempt w p m tr) = Returned r) \<Longrightarrow>
   try_models w p (pre @ m # post) last_error text_response tried = (Inr r, tried @ pre @ [m])"
proof (induction pre arbitrary: last_error text_response tried)
  case Nil
  obtain o' tr' where a: "attempt w p m text_response = (o', tr')"
    by (cases "attempt w p m text_response")
  then have "o' = Returned r" using Nil.prems(2) [of text_response] by simp
  then show ?case using a by simp
next
  case (Cons x xs)
  obtain o' tr' where a: "attempt w p x text_response = (o', tr')"
    by (cases "attempt w p x text_response")
  from Cons.prems(1) [of x text_response] obtain e where "fst (attempt w p x text_response) = Recorded e"
    by auto
  then have o': "o' = Recorded e" using a by simp
  have tl: "\<And>y tr. y \<in> set xs \<Longrightarrow> \<exists>e. fst (attempt w p y tr) = Recorded e"
    using Cons.prems(1) by simp
  show ?case
    using Cons.IH [OF tl Cons.prems(2), of "Some e" tr' "tried @ [x]"] a o' by simp
qed

text \<open>
  C3. The claim: when every identifier of the list fails, by an error of the endpoint or by
  a reply that does not parse, the invoker raises the error recorded last, and the generic
  error only when none was recorded. The code departs from it when the error of the
  endpoint is a decode error raised by the client before any reply was received: the
  handler reads \<open>text_response\<close>, still unassigned, and \<open>UnboundLocalError\<close> leaves the
  function at the first identifier. Here every identifier fails that way; no error is
  recorded, the other four identifiers are not attempted, and the error raised is neither a
  recorded one nor the generic one.
\<close>

theorem client_decode_error_is_not_recorded:
  "analizza_dati (sample_world sample_table bad_body_always) ''recensioni.csv'' 50 ''body''
     = (Inl (UnboundLocalError
               (''cannot access local variable '' @ quote @ ''text_response'' @ quote
                  @ '' where it is not associated with a value'')),
        [''models/gemini-2.5-flash''])"
proof -
  let ?w = "sample_world sample_table bad_body_always"
  have rl: "reviews_list_of sample_table 50 ''body'' = Inr [''nan'', '' nan '', ''fine'']"
    by code_simp
  have load: "load_reviews ?w ''recensioni.csv'' 50 ''body''
                = Inr (render_reviews [''nan'', '' nan '', ''fine''], length [''nan'', '' nan '', ''fine''])"
    by (rule load_reviews_ok [OF _ _ rl]) (simp_all add: sample_world_def)
  have "try_models ?w p model_names None None []
          = (Inl (UnboundLocalError
                    (''cannot access local variable '' @ quote @ ''text_response'' @ quote
                       @ '' where it is not associated with a value'')),
             [''models/gemini-2.5-flash''])" for p
    by (simp add: model_names_def attempt_def sample_world_def bad_body_always_def)
  then show ?thesis
    using analizza_dati_ok [OF load] by simp
qed

text \<open>
  C4. The claim: when the attempt with the first identifier fails and the reply for the
  second parses, the invoker returns the second's value and attempts no third. The code
  departs from it by the same defect as in C3: here the client raises a decode error for
  the first identifier and the reply for the second would parse to the empty object, but
  \<open>UnboundLocalError\<close> leaves the function and the second identifier is never attempted.
\<close>

theorem client_decode_error_stops_before_second_model:
  "analizza_dati (sample_world sample_table bad_body_first) ''recensioni.csv'' 50 ''body''
     = (Inl (UnboundLocalError
               (''cannot access local variable '' @ quote @ ''text_response'' @ quote
                  @ '' where it is not associated with a value'')),
        [''models/gemini-2.5-flash''])
   \<and> attempt (sample_world sample_table bad_body_first) [] ''models/gemini-2.0-flash'' None
       = (Returned (JObj []), Some ''{}'')"
proof -
  let ?w = "sample_world sample_table bad_body_first"
  let ?reply = "fence @ ''json'' @ newline @ ''{}'' @ newline @ fence"
  have rl: "reviews_list_of sample_table 50 ''body'' = Inr [''nan'', '' nan '', ''fine'']"
    by code_simp
  have load: "load_reviews ?w ''recensioni.csv'' 50 ''body''
                = Inr (render_reviews [''nan'', '' nan '', ''fine''], length [''nan'', '' nan '', ''fine''])"
    by (rule load_reviews_ok [OF _ _ rl]) (simp_all add: sample_world_def)
  have "try_models ?w p model_names None None []
          = (Inl (UnboundLocalError
                    (''cannot access local variable '' @ quote @ ''text_response'' @ quote
                       @ '' where it is not associated with a value'')),
             [''models/gemini-2.5-flash''])" for p
    by (simp add: model_names_def attempt_def sample_world_def bad_body_first_def)
  then have first: "analizza_dati ?w ''recensioni.csv'' 50 ''body''
     = (Inl (UnboundLocalError
               (''cannot access local variable '' @ quote @ ''text_response'' @ quote
                  @ '' where it is not associated with a value'')),
        [''models/gemini-2.5-flash''])"
    using analizza_dati_ok [OF load] by simp
  have cl: "clean_response (strip ?reply) = Inr ''{}''" by code_simp
  have second: "attempt ?w [] ''models/gemini-2.0-flash'' None = (Returned (JObj []), Some ''{}'')"
    by (rule attempt_success [OF _ cl])
       (simp_all add: sample_world_def bad_body_first_def sample_loads_def)
  show ?thesis using first second by blast
qed

section \<open>Claims about the report and the saved file\<close>

lemma run_sections_no_error:
  "(\<And>s. s \<in> set secs \<Longrightarrow> snd s = None) \<Longrightarrow>
   run_sections secs out = (Inr (), out @ concat (map fst secs))"
proof (induction secs arbitrary: out)
  case Nil
  then show ?case by simp
next
  case (Cons s secs)
  obtain printed e where s: "s = (printed, e)" by (cases s)
  have "e = None" using Cons.prems [of s] s by simp
  then show ?case using Cons.IH [of "out @ printed"] Cons.prems s by simp
qed

lemma dict_get_iterable:
  "(\<And>v. map_of d k = Some v \<Longrightarrow> iterable v) \<Longrightarrow> iterable (dict_get d k (JArr []))"
  by (cases "map_of d k") (simp_all add: dict_get_def iterable_def)

lemma punti_critici_ok:
  "(\<And>v. map_of d ''punti_critici'' = Some v \<Longrightarrow> iterable v) \<Longrightarrow> snd (punti_critici repr d) = None"
  using dict_get_iterable [of d "''punti_critici''"]
  by (auto simp: punti_critici_def iterable_def Let_def split: sum.splits)

lemma vantaggi_competitivi_ok:
  "(\<And>v. map_of d ''vantaggi_competitivi'' = Some v \<Longrightarrow> iterable v) \<Longrightarrow>
   snd (vantaggi_competitivi repr d) = None"
  using dict_get_iterable [of d "''vantaggi_competitivi''"]
  by (auto simp: vantaggi_competitivi_def iterable_def Let_def split: sum.splits)

lemma temi_ricorrenti_ok:
  "(\<And>v. map_of d ''temi_ricorrenti'' = Some v \<Longrightarrow> iterable v) \<Longrightarrow>
   snd (temi_ricorrenti repr d) = None"
  by (auto simp: temi_ricorrenti_def iterable_def split: option.splits sum.splits)

lemma priorita_intervento_ok:
  "(\<And>v. map_of d ''priorita_intervento'' = Some v \<Longrightarrow> iterable v) \<Longrightarrow>
   snd (priorita_intervento repr d) = None"
  by (auto simp: priorita_intervento_def iterable_def split: option.splits sum.splits)

lemma temi_ricorrenti_printed:
  "fst (temi_ricorrenti repr d) \<noteq> [] \<longleftrightarrow> has_key d ''temi_ricorrenti''"
  by (auto simp: temi_ricorrenti_def has_key_def split: option.splits sum.splits)

lemma priorita_intervento_printed:
  "fst (priorita_intervento repr d) \<noteq> [] \<longleftrightarrow> has_key d ''priorita_intervento''"
  by (auto simp: priorita_intervento_def has_key_def split: option.splits sum.splits)

lemma py_str_na [simp]: "py_str repr na = ''N/A''"
  by (simp add: py_str_def na_def)

text \<open>
  C8. For a result object in which any of the expected fields may be missing, the empty
  object included, and in which the fields the report loops over are, when present, values
  a loop accepts, the report completes without raising: every section runs to its end. A
  missing scalar field is printed as \<open>N/A\<close>, and the sections of the themes and of the
  priorities print something exactly when their key is present.
\<close>

theorem report_tolerates_missing_fields:
  assumes "\<And>k v. k \<in> set looped_fields \<Longrightarrow> map_of d k = Some v \<Longrightarrow> iterable v"
  shows "stampa_report repr (JObj d) out
           = (Inr (),
              out @ fst banner @ fst (summary repr d) @ fst (punti_critici repr d)
                @ fst (vantaggi_competitivi repr d) @ fst (temi_ricorrenti repr d)
                @ fst (consiglio repr d) @ fst (strategia repr d)
                @ fst (priorita_intervento repr d) @ fst footer)
       \<and> (map_of d ''sentiment_score'' = None \<longrightarrow>
            fst (summary repr d) ! 0
              = newline @ [CHR 0xF0, CHR 0x9F, CHR 0x8E, CHR 0xAF] @ '' Sentiment Score: N/A/100'')
       \<and> (map_of d ''sentiment_label'' = None \<longrightarrow>
            fst (summary repr d) ! 1 = [CHR 0xF0, CHR 0x9F, CHR 0x93, CHR 0x88] @ '' Sentiment: N/A'')
       \<and> (map_of d ''numero_recensioni_analizzate'' = None \<longrightarrow>
            fst (summary repr d) ! 2
              = [CHR 0xF0, CHR 0x9F, CHR 0x93, CHR 0x9D] @ '' Recensioni analizzate: N/A'')
       \<and> (map_of d ''consiglio_ingegneristico'' = None \<longrightarrow> fst (consiglio repr d) ! 1 = ''   N/A'')
       \<and> (map_of d ''strategia_marketing'' = None \<longrightarrow> fst (strategia repr d) ! 1 = ''   N/A'')
       \<and> (fst (temi_ricorrenti repr d) \<noteq> [] \<longleftrightarrow> has_key d ''temi_ricorrenti'')
       \<and> (fst (priorita_intervento repr d) \<noteq> [] \<longleftrightarrow> has_key d ''priorita_intervento'')"
proof -
  let ?secs = "[banner, summary repr d, punti_critici repr d, vantaggi_competitivi repr d,
                temi_ricorrenti repr d, consiglio repr d, strategia repr d,
                priorita_intervento repr d, footer]"
  have p: "snd (punti_critici repr d) = None"
    by (rule punti_critici_ok) (rule assms, simp_all add: looped_fields_def)
  have v: "snd (vantaggi_competitivi repr d) = None"
    by (rule vantaggi_competitivi_ok) (rule assms, simp_all add: looped_fields_def)
  have t: "snd (temi_ricorrenti repr d) = None"
    by (rule temi_ricorrenti_ok) (rule assms, simp_all add: looped_fields_def)
  have i: "snd (priorita_intervento repr d) = None"
    by (rule priorita_intervento_ok) (rule assms, simp_all add: looped_fields_def)
  have fixed: "snd banner = None" "snd (summary repr d) = None" "snd (consiglio repr d) = None"
    "snd (strategia repr d) = None" "snd footer = None"
    by (simp_all add: banner_def summary_def consiglio_def strategia_def footer_def)
  have none: "snd s = None" if "s \<in> set ?secs" for s
    using that p v t i fixed by auto
  have "run_sections ?secs out = (Inr (), out @ concat (map fst ?secs))"
    by (rule run_sections_no_error) (rule none)
  then
  have run: "stampa_report repr (JObj d) out
           = (Inr (),
              out @ fst banner @ fst (summary repr d) @ fst (punti_critici repr d)
                @ fst (vantaggi_competitivi repr d) @ fst (temi_ricorrenti repr d)
                @ fst (consiglio repr d) @ fst (strategia repr d)
                @ fst (priorita_intervento repr d) @ fst footer)"
    by (simp add: stampa_report_def)
  have na: "map_of d ''sentiment_score'' = None \<longrightarrow>
            fst (summary repr d) ! 0
              = newline @ [CHR 0xF0, CHR 0x9F, CHR 0x8E, CHR 0xAF] @ '' Sentiment Score: N/A/100''"
    "map_of d ''sentiment_label'' = None \<longrightarrow>
            fst (summary repr d) ! 1 = [CHR 0xF0, CHR 0x9F, CHR 0x93, CHR 0x88] @ '' Sentiment: N/A''"
    "map_of d ''numero_recensioni_analizzate'' = None \<longrightarrow>
            fst (summary repr d) ! 2
              = [CHR 0xF0, CHR 0x9F, CHR 0x93, CHR 0x9D] @ '' Recensioni analizzate: N/A''"
    "map_of d ''consiglio_ingegneristico'' = None \<longrightarrow> fst (consiglio repr d) ! 1 = ''   N/A''"
    "map_of d ''strategia_marketing'' = None \<longrightarrow> fst (strategia repr d) ! 1 = ''   N/A''"
    by (simp_all add: summary_def consiglio_def strategia_def dict_get_def)
  show ?thesis
    using run na temi_ricorrenti_printed [of repr d] priorita_intervento_printed [of repr d]
    by blast
qed

text \<open>
  The theorem at the empty object, with the whole report it prints, and at an object that
  has the themes.
\<close>

theorem report_tolerates_missing_fields_witness:
  "stampa_report sample_repr (JObj []) []
     = (Inr (),
        [newline @ rule80,
         [CHR 0xF0, CHR 0x9F, CHR 0x93, CHR 0x8A] @ '' REPORT ANALISI RECENSIONI'',
         rule80,
         newline @ [CHR 0xF0, CHR 0x9F, CHR 0x8E, CHR 0xAF] @ '' Sentiment Score: N/A/100'',
         [CHR 0xF0, CHR 0x9F, CHR 0x93, CHR 0x88] @ '' Sentiment: N/A'',
         [CHR 0xF0, CHR 0x9F, CHR 0x93, CHR 0x9D] @ '' Recensioni analizzate: N/A'',
         newline @ [CHR 0xE2, CHR 0x9A, CHR 0xA0, CHR 0xEF, CHR 0xB8, CHR 0x8F] @ ''  PUNTI CRITICI:'',
         newline @ [CHR 0xE2, CHR 0x9C, CHR 0x85] @ '' VANTAGGI COMPETITIVI:'',
         newline @ [CHR 0xF0, CHR 0x9F, CHR 0x94, CHR 0xA7] @ '' CONSIGLIO INGEGNERISTICO:'',
         ''   N/A'',
         newline @ [CHR 0xF0, CHR 0x9F, CHR 0x93, CHR 0xA2] @ '' STRATEGIA MARKETING:'',
         ''   N/A'',
         newline @ rule80 @ newline])
   \<and> fst (temi_ricorrenti sample_repr [(''temi_ricorrenti'', JArr [JStr ''prezzo''])])
       = [temi_header, ''   '' @ [CHR 0xE2, CHR 0x80, CHR 0xA2] @ '' prezzo'']
   \<and> has_key [(''temi_ricorrenti'', JArr [JStr ''prezzo''])] ''temi_ricorrenti''"
proof -
  have empty: "\<And>k v. k \<in> set looped_fields \<Longrightarrow> map_of [] k = Some v \<Longrightarrow> iterable v"
    by simp
  have secs: "fst (punti_critici sample_repr []) = [newline @ [CHR 0xE2, CHR 0x9A, CHR 0xA0, CHR 0xEF, CHR 0xB8, CHR 0x8F] @ ''  PUNTI CRITICI:'']"
    "fst (vantaggi_competitivi sample_repr []) = [newline @ [CHR 0xE2, CHR 0x9C, CHR 0x85] @ '' VANTAGGI COMPETITIVI:'']"
    "fst (temi_ricorrenti sample_repr []) = []"
    "fst (priorita_intervento sample_repr []) = []"
    by (simp_all add: punti_critici_def vantaggi_competitivi_def temi_ricorrenti_def
          priorita_intervento_def dict_get_def enumerate_from_def)
  have fixed: "fst banner = [newline @ rule80,
         [CHR 0xF0, CHR 0x9F, CHR 0x93, CHR 0x8A] @ '' REPORT ANALISI RECENSIONI'', rule80]"
    "fst (summary sample_repr []) =
        [newline @ [CHR 0xF0, CHR 0x9F, CHR 0x8E, CHR 0xAF] @ '' Sentiment Score: N/A/100'',
         [CHR 0xF0, CHR 0x9F, CHR 0x93, CHR 0x88] @ '' Sentiment: N/A'',
         [CHR 0xF0, CHR 0x9F, CHR 0x93, CHR 0x9D] @ '' Recensioni analizzate: N/A'']"
    "fst (consiglio sample_repr []) =
        [newline @ [CHR 0xF0, CHR 0x9F, CHR 0x94, CHR 0xA7] @ '' CONSIGLIO INGEGNERISTICO:'', ''   N/A'']"
    "fst (strategia sample_repr []) =
        [newline @ [CHR 0xF0, CHR 0x9F, CHR 0x93, CHR 0xA2] @ '' STRATEGIA MARKETING:'', ''   N/A'']"
    "fst footer = [newline @ rule80 @ newline]"
    by (simp_all add: banner_def summary_def consiglio_def strategia_def footer_def dict_get_def)
  have one: "\<And>k v. k \<in> set looped_fields \<Longrightarrow>
               map_of [(''temi_ricorrenti'', JArr [JStr ''prezzo''])] k = Some v \<Longrightarrow> iterable v"
    by (auto simp: looped_fields_def iterable_def split: if_splits)
  have temi: "fst (temi_ricorrenti sample_repr [(''temi_ricorrenti'', JArr [JStr ''prezzo''])])
       = [temi_header, ''   '' @ [CHR 0xE2, CHR 0x80, CHR 0xA2] @ '' prezzo'']"
    by (simp add: temi_ricorrenti_def py_str_def)
  from report_tolerates_missing_fields [of "[]" sample_repr "[]", OF empty]
       report_tolerates_missing_fields
         [of "[(''temi_ricorrenti'', JArr [JStr ''prezzo''])]" sample_repr "[]", OF one]
  show ?thesis
    unfolding secs fixed temi by simp
qed

text \<open>
  C9. \<open>salva_risultati\<close> returns normally whatever the write does; when the write raises,
  the error is logged and nothing else happens. A run whose analysis and report succeeded
  therefore ends with status 0 and keeps the report it printed, whether the file could be
  written or not.
\<close>

theorem save_failure_is_logged_and_swallowed:
  "fst (salva_risultati w risultato output_file (fs, log)) = Inr ()
   \<and> (\<forall>fs' e. dump_to_file w output_file risultato fs = (fs', Some e) \<longrightarrow>
          salva_risultati w risultato output_file (fs, log)
            = (Inr (), fs', log @ [(ERROR, ''Errore nel salvataggio dei risultati: '' @ str_exc e)]))
   \<and> (\<forall>v out. fst (analizza_dati w ''recensioni.csv'' 50 ''a-size-base 3'') = Inr v
          \<longrightarrow> stampa_report repr v (stdout st) = (Inr (), out)
          \<longrightarrow> fst (main w repr st) = 0 \<and> take (length out) (stdout (snd (main w repr st))) = out)"
proof -
  have a: "fst (salva_risultati w risultato output_file (fs, log)) = Inr ()"
    by (simp add: salva_risultati_def split: prod.splits option.splits)
  have b: "\<forall>fs' e. dump_to_file w output_file risultato fs = (fs', Some e) \<longrightarrow>
          salva_risultati w risultato output_file (fs, log)
            = (Inr (), fs', log @ [(ERROR, ''Errore nel salvataggio dei risultati: '' @ str_exc e)])"
    by (simp add: salva_risultati_def)
  have c: "\<forall>v out. fst (analizza_dati w ''recensioni.csv'' 50 ''a-size-base 3'') = Inr v
          \<longrightarrow> stampa_report repr v (stdout st) = (Inr (), out)
          \<longrightarrow> fst (main w repr st) = 0 \<and> take (length out) (stdout (snd (main w repr st))) = out"
    by (auto simp: main_def salva_risultati_def split: prod.splits option.splits sum.splits)
  show ?thesis using a b c by blast
qed

text \<open>
  The theorem on a disk that refuses the write: the error is logged, and the run ends with
  status 0.
\<close>

theorem save_failure_is_logged_and_swallowed_witness:
  "dump_to_file read_only_world ''analisi_risultati.json'' (JObj []) ()
     = ((), Some (OSError ''[Errno 13] Permission denied''))
   \<and> salva_risultati read_only_world (JObj []) ''analisi_risultati.json'' ((), [])
       = (Inr (), (),
          [(ERROR, ''Errore nel salvataggio dei risultati: [Errno 13] Permission denied'')])
   \<and> fst (main read_only_world sample_repr \<lparr>stdout = [], files = (), logged = []\<rparr>) = 0"
proof -
  let ?reply = "fence @ ''json'' @ newline @ ''{}'' @ newline @ fence"
  let ?st = "\<lparr>stdout = [], files = (), logged = []\<rparr>"
  have d: "dump_to_file read_only_world ''analisi_risultati.json'' (JObj []) ()
             = ((), Some (OSError ''[Errno 13] Permission denied''))"
    by (simp add: read_only_world_def)
  have cl: "clean_response (strip ?reply) = Inr ''{}''" by code_simp
  have f1: "\<exists>e. fst (attempt read_only_world p x tr) = Recorded e"
    if "x \<in> set [''models/gemini-2.5-flash'']" for x p tr
    using that
    by (simp add: attempt_def read_only_world_def sample_world_def second_replies_def)
  have a2: "fst (attempt read_only_world p ''models/gemini-2.0-flash'' tr) = Returned (JObj [])"
    for p tr
    by (simp add: attempt_success [OF _ cl] read_only_world_def sample_world_def
          second_replies_def sample_loads_def)
  have names: "model_names = [''models/gemini-2.5-flash''] @ ''models/gemini-2.0-flash''
                 # [''models/gemini-flash-latest'', ''models/gemini-2.5-pro'', ''models/gemini-pro-latest'']"
    by (simp add: model_names_def)
  have rl: "reviews_list_of sample_table 50 ''a-size-base 3'' = Inr [[], '' nan '', ''fine'']"
    by code_simp
  have load: "load_reviews read_only_world ''recensioni.csv'' 50 ''a-size-base 3''
                = Inr (render_reviews [[], '' nan '', ''fine''], length [[], '' nan '', ''fine''])"
    by (rule load_reviews_ok [OF _ _ rl]) (simp_all add: read_only_world_def sample_world_def)
  have "try_models read_only_world p
          ([''models/gemini-2.5-flash''] @ ''models/gemini-2.0-flash''
             # [''models/gemini-flash-latest'', ''models/gemini-2.5-pro'', ''models/gemini-pro-latest''])
          None None []
        = (Inr (JObj []), [] @ [''models/gemini-2.5-flash''] @ [''models/gemini-2.0-flash''])" for p
    by (rule try_models_first_success) (rule f1, assumption, rule a2)
  then have "fst (try_models read_only_world p model_names None None []) = Inr (JObj [])" for p
    unfolding names by (simp only: fst_conv)
  then have an: "fst (analizza_dati read_only_world ''recensioni.csv'' 50 ''a-size-base 3'') = Inr (JObj [])"
    using analizza_dati_ok [OF load] by simp
  let ?secs = "[banner, summary sample_repr [], punti_critici sample_repr [],
                vantaggi_competitivi sample_repr [], temi_ricorrenti sample_repr [],
                consiglio sample_repr [], strategia sample_repr [],
                priorita_intervento sample_repr [], footer]"
  have none: "snd s = None" if "s \<in> set ?secs" for s
    using that
    by (auto simp: banner_def summary_def punti_critici_def vantaggi_competitivi_def
          temi_ricorrenti_def consiglio_def strategia_def priorita_intervento_def footer_def
          dict_get_def)
  have "run_sections ?secs [] = (Inr (), [] @ concat (map fst ?secs))"
    by (rule run_sections_no_error) (rule none)
  then have rep: "\<exists>out. stampa_report sample_repr (JObj []) (stdout ?st) = (Inr (), out)"
    by (simp add: stampa_report_def)
  from save_failure_is_logged_and_swallowed
         [of read_only_world "JObj []" "''analisi_risultati.json''" "()" "[]" sample_repr ?st]
  show ?thesis using d an rep by auto
qed

section \<open>Claims about the cleaning of the reply\<close>

lemma is_space_newline [simp]: "is_space (CHR 0x0A)"
  by (simp add: is_space_def)

lemma not_space_backtick [simp]: "\<not> is_space (CHR 0x60)"
  by (simp add: is_space_def)

lemma strip_unchanged:
  "s \<noteq> [] \<Longrightarrow> \<not> is_space (hd s) \<Longrightarrow> \<not> is_space (last s) \<Longrightarrow> strip s = s"
proof -
  assume ne: "s \<noteq> []" and h: "\<not> is_space (hd s)" and l: "\<not> is_space (last s)"
  have "dropWhile is_space s = s" using ne h by (cases s) simp_all
  moreover have "dropWhile is_space (rev s) = rev s"
    using ne l by (cases "rev s") (simp_all add: last_rev [symmetric] hd_rev)
  ultimately show ?thesis by (simp add: strip_def lstrip_def rstrip_def)
qed

lemma strip_between_newlines: "strip (newline @ j @ newline) = strip j"
proof (cases "\<forall>c \<in> set j. is_space c")
  case True
  have a: "dropWhile is_space (j @ [CHR 0x0A]) = []"
    using True by (simp add: dropWhile_eq_Nil_conv)
  have b: "dropWhile is_space j = []"
    using True by (simp add: dropWhile_eq_Nil_conv)
  have "strip (newline @ j @ newline) = []"
    unfolding strip_def lstrip_def rstrip_def newline_def append_Cons append_Nil
    by (simp add: a)
  moreover have "strip j = []"
    unfolding strip_def lstrip_def rstrip_def b by simp
  ultimately show ?thesis by simp
next
  case False
  then obtain c where "c \<in> set j" "\<not> is_space c" by blast
  then have "dropWhile is_space (j @ newline) = dropWhile is_space j @ newline"
    by (rule dropWhile_append1)
  then show ?thesis by (simp add: strip_def lstrip_def rstrip_def newline_def)
qed

lemma startswith_fence_Cons:
  "startswith (c # s) fence \<Longrightarrow> c = CHR 0x60"
  by (simp add: startswith_def fence_def)

lemma occurs_in_fence_Cons:
  "c \<noteq> CHR 0x60 \<Longrightarrow> occurs_in fence (c # s) = occurs_in fence s"
  using startswith_fence_Cons [of c s] by auto

lemma no_fence_across_newline:
  assumes "\<not> startswith (c # cs) fence"
  shows "\<not> startswith ((c # cs) @ newline @ t) fence"
proof (cases cs)
  case Nil
  then show ?thesis by (simp add: startswith_def fence_def newline_def)
next
  case (Cons a as)
  then show ?thesis
    using assms by (cases as) (auto simp: startswith_def fence_def newline_def)
qed

lemma split_scan_no_fence:
  "\<not> occurs_in fence u \<Longrightarrow>
   split_scan fence cur (u @ newline @ fence) = [cur @ u @ newline, []]"
proof (induction u arbitrary: cur)
  case Nil
  then show ?case by (simp add: fence_def newline_def startswith_def)
next
  case (Cons c cs)
  then have nf: "\<not> startswith (c # cs) fence" and no: "\<not> occurs_in fence cs" by simp_all
  have "\<not> startswith ((c # cs) @ newline @ fence) fence"
    using no_fence_across_newline [OF nf] .
  then have "split_scan fence cur ((c # cs) @ newline @ fence)
               = split_scan fence (cur @ [c]) (cs @ newline @ fence)"
    by simp
  then show ?case using Cons.IH [OF no, of "cur @ [c]"] by simp
qed

lemma replace_no_fence:
  "\<not> occurs_in fence u \<Longrightarrow> replace (u @ newline) fence new = u @ newline"
proof (induction u)
  case Nil
  then show ?case by (simp add: fence_def newline_def startswith_def)
next
  case (Cons c cs)
  then have nf: "\<not> startswith (c # cs) fence" and no: "\<not> occurs_in fence cs" by simp_all
  have "\<not> startswith ((c # cs) @ newline @ []) fence"
    using no_fence_across_newline [OF nf] .
  then have "replace ((c # cs) @ newline) fence new = c # replace (cs @ newline) fence new"
    by simp
  then show ?case using Cons.IH [OF no] by simp
qed

lemma split_fenced:
  assumes "\<not> occurs_in fence j"
  shows "split (fenced j) fence = [[], ''json'' @ newline @ j @ newline, []]"
proof -
  have no: "\<not> occurs_in fence (''json'' @ newline @ j)"
    using assms by (simp add: occurs_in_fence_Cons newline_def del: occurs_in.simps)
  have "split (fenced j) fence = [] # split_scan fence [] ((''json'' @ newline @ j) @ newline @ fence)"
    by (simp add: split_def fenced_def fence_def startswith_def)
  then show ?thesis using split_scan_no_fence [OF no, of "[]"] by simp
qed

text \<open>
  C5 (as amended). For every JSON text in which no triple backtick occurs, cleaning its
  Markdown wrapping gives back the text, trimmed; the attempt with a model that replies
  with the wrapping therefore parses exactly what it would parse for the trimmed text.
\<close>

theorem fence_stripping_recovers_fence_free_json:
  assumes "\<not> occurs_in fence j"
  shows "clean_response (strip (fenced j)) = Inr (strip j)
       \<and> (\<forall>w m p tr. generate_content w m p = Inr (fenced j) \<longrightarrow> attempt w p m tr
             = (case loads w (strip j) of
                  Inl msg \<Rightarrow>
                    Recorded (ValueError (''Risposta API non valida. Errore JSON: '' @ msg))
                | Inr result \<Rightarrow> Returned result,
                Some (strip j)))"
proof -
  have st: "strip (fenced j) = fenced j"
    by (rule strip_unchanged) (simp_all add: fenced_def fence_def)
  have sw: "startswith (fenced j) fence"
    by (simp add: startswith_def fenced_def fence_def)
  have seg: "startswith (''json'' @ newline @ j @ newline) ''json''"
    by (simp add: startswith_def)
  have rp: "replace (newline @ j @ newline) fence [] = newline @ j @ newline"
  proof -
    have "\<not> occurs_in fence (newline @ j)"
      using assms by (simp add: occurs_in_fence_Cons newline_def del: occurs_in.simps)
    from replace_no_fence [OF this, of "[]"] show ?thesis by simp
  qed
  have cl: "clean_response (strip (fenced j)) = Inr (strip j)"
    unfolding st clean_response_def
    using sw seg rp by (simp add: split_fenced [OF assms] strip_between_newlines)
  have at: "\<forall>w m p tr. generate_content w m p = Inr (fenced j) \<longrightarrow> attempt w p m tr
             = (case loads w (strip j) of
                  Inl msg \<Rightarrow>
                    Recorded (ValueError (''Risposta API non valida. Errore JSON: '' @ msg))
                | Inr result \<Rightarrow> Returned result,
                Some (strip j))"
    using cl by (auto simp: attempt_def split: sum.splits)
  show ?thesis using cl at by blast
qed

text \<open>
  The theorem at a JSON object with blanks around it.
\<close>

theorem fence_stripping_recovers_fence_free_json_witness:
  \<open>\<not> occurs_in fence ''  {"sentiment_score": 75} ''
   \<and> clean_response (strip (fenced ''  {"sentiment_score": 75} '')) = Inr ''{"sentiment_score": 75}''\<close>
proof -
  have no: \<open>\<not> occurs_in fence ''  {"sentiment_score": 75} ''\<close> by code_simp
  have st: \<open>strip ''  {"sentiment_score": 75} '' = ''{"sentiment_score": 75}''\<close> by code_simp
  from fence_stripping_recovers_fence_free_json [OF no]
  have \<open>clean_response (strip (fenced ''  {"sentiment_score": 75} ''))
          = Inr (strip ''  {"sentiment_score": 75} '')\<close>
    by (rule conjunct1)
  then have \<open>clean_response (strip (fenced ''  {"sentiment_score": 75} ''))
          = Inr ''{"sentiment_score": 75}''\<close>
    by (simp only: st)
  with no show ?thesis by blast
qed

text \<open>
  C5 as stated fails: a JSON object with a triple backtick inside a string is cut at that
  backtick, and what is left is not the object.
\<close>

theorem fence_inside_json_text_counterexample:
  \<open>strip (''{"a": "'' @ fence @ ''"}'') = ''{"a": "'' @ fence @ ''"}''
   \<and> clean_response (strip (fenced (''{"a": "'' @ fence @ ''"}''))) = Inr ''{"a": "''
   \<and> clean_response (strip (fenced (''{"a": "'' @ fence @ ''"}'')))
       \<noteq> Inr (strip (''{"a": "'' @ fence @ ''"}''))\<close>
  by code_simp

end
